theory Spec2Isabelle
  imports Complex_Main "HOL-Library.Char_ord" "HOL-Library.List_Lexorder"
begin

section \<open>Planning poker: the estimation round and the session analytics\<close>

text \<open>
  A shallow embedding of \<^verbatim>\<open>planning_poker_supabase.py\<close>: the round engine
  (\<^verbatim>\<open>analyze_estimates\<close>, \<^verbatim>\<open>PlanningPokerApp.save_estimates\<close>) and
  the read-only summaries of the analytics and reports tabs.

  Conventions of the embedding.
  \<^item> A Python \<^verbatim>\<open>float\<close> stands as its exact value, a rational number: every card
    of the deck (\<open>0, 0.5, 1, 2, 3, 5, 8, 13, 21, 34, 55, 89\<close>) is a double. Comparing
    floats, and taking their minimum and maximum, is exact. The arithmetic that rounds is
    done by library functions (\<^verbatim>\<open>numpy.mean\<close>, the mean and the median of a pandas
    series), which are parameters of the model. Non-finite floats are outside the model.
  \<^item> A Python \<^verbatim>\<open>str\<close> is a \<open>string\<close>; a character outside ASCII stands as its
    UTF-8 bytes.
  \<^item> A \<^verbatim>\<open>dict\<close> is the list of its items in iteration order.
  \<^item> What the Streamlit calls display is returned as a list of events; what the Supabase
    calls do is explicit state passing on a \<open>store\<close>; an exception is a value.
  \<^item> The library functions whose text is not part of the program (the reading of a string
    by \<^verbatim>\<open>float\<close> and by \<^verbatim>\<open>pandas.to_numeric\<close>, the printing of a float, the
    means and the median, the clock, the availability of the remote store) are fields of an
    environment \<open>env\<close>.
\<close>

subsection \<open>Python values and exceptions\<close>

datatype pyval = PyNone | PyInt int | PyFloat rat | PyStr string

datatype py_exc = KeyError string | ValueError | TypeError | APIError

text \<open>The two special cards, \<^verbatim>\<open>'?'\<close> and the infinity sign (U+221E).\<close>

definition unknown_card :: string where
  "unknown_card = ''?''"

definition infinity_card :: string where
  "infinity_card = [CHR 0xE2, CHR 0x88, CHR 0x9E]"

text \<open>\<^verbatim>\<open>self.fibonacci_cards\<close> and \<^verbatim>\<open>self.special_cards\<close>.\<close>

definition fibonacci_cards :: "pyval list" where
  "fibonacci_cards =
     [PyInt 0, PyFloat (1 / 2), PyInt 1, PyInt 2, PyInt 3, PyInt 5, PyInt 8,
      PyInt 13, PyInt 21, PyInt 34, PyInt 55, PyInt 89]"

definition special_cards :: "pyval list" where
  "special_cards = [PyStr unknown_card, PyStr infinity_card]"

definition all_cards :: "pyval list" where
  "all_cards = fibonacci_cards @ special_cards"

subsection \<open>The environment\<close>

record env =
  current_session_id :: nat
  now :: string
  faults :: "nat \<Rightarrow> bool"
  float_of_str :: "string \<Rightarrow> rat option"
  str_of_float :: "rat \<Rightarrow> string"
  to_numeric :: "string \<Rightarrow> rat option"
  np_mean :: "rat list \<Rightarrow> rat"
  pd_mean :: "rat list \<Rightarrow> rat"
  pd_median :: "rat list \<Rightarrow> rat"

text \<open>
  \<open>current_session_id\<close> is \<^verbatim>\<open>st.session_state.current_session_id\<close>;
  \<open>now\<close> is \<^verbatim>\<open>datetime.now().isoformat()\<close>, the clock standing still for the
  time of one operation; \<open>faults env k\<close> says that the \<open>k\<close>-th call to the remote
  store made by the operation at hand raises;
  \<open>float_of_str\<close> is \<^verbatim>\<open>float\<close> on a string (\<open>None\<close>: it raises
  \<^verbatim>\<open>ValueError\<close>); \<open>str_of_float\<close> is \<^verbatim>\<open>str\<close> on a float;
  \<open>to_numeric\<close> is \<^verbatim>\<open>pandas.to_numeric(errors='coerce')\<close> on one string
  (\<open>None\<close>: the entry is coerced to NaN); \<open>np_mean\<close> is \<^verbatim>\<open>numpy.mean\<close> on a
  list of floats that is not empty, \<open>pd_mean\<close> and \<open>pd_median\<close> are the methods
  \<^verbatim>\<open>mean\<close> and \<^verbatim>\<open>median\<close> of a pandas series of floats that is not empty: each
  returns a double, the result of floating-point arithmetic on the values.
\<close>

text \<open>\<^verbatim>\<open>float(estimate)\<close>.\<close>

fun py_float :: "env \<Rightarrow> pyval \<Rightarrow> py_exc + rat" where
  "py_float env PyNone = Inl TypeError"
| "py_float env (PyInt i) = Inr (of_int i)"
| "py_float env (PyFloat x) = Inr x"
| "py_float env (PyStr s) =
     (case float_of_str env s of None \<Rightarrow> Inl ValueError | Some x \<Rightarrow> Inr x)"

text \<open>\<^verbatim>\<open>str(estimate)\<close>: decimal digits for an integer.\<close>

definition digit_char :: "nat \<Rightarrow> char" where
  "digit_char d = char_of (48 + d)"

fun str_of_nat :: "nat \<Rightarrow> string" where
  "str_of_nat n =
     (if n < 10 then [digit_char n] else str_of_nat (n div 10) @ [digit_char (n mod 10)])"

definition str_of_int :: "int \<Rightarrow> string" where
  "str_of_int i = (if i < 0 then CHR ''-'' # str_of_nat (nat (- i)) else str_of_nat (nat i))"

fun py_str :: "env \<Rightarrow> pyval \<Rightarrow> string" where
  "py_str env PyNone = ''None''"
| "py_str env (PyInt i) = str_of_int i"
| "py_str env (PyFloat x) = str_of_float env x"
| "py_str env (PyStr s) = s"

subsection \<open>The record store\<close>

record participant =
  p_id :: nat
  p_session_id :: nat
  p_name :: string
  p_role :: string
  p_email :: "string option"
  p_joined_at :: string

record story =
  s_id :: nat
  s_session_id :: nat
  s_story_id :: string
  s_title :: string
  s_description :: string
  s_acceptance_criteria :: string
  s_priority :: string
  s_status :: string
  s_final_estimate :: "rat option"
  s_last_estimated_at :: "string option"

record estimate =
  e_session_id :: nat
  e_story_id :: nat
  e_participant_id :: nat
  e_estimate :: string
  e_estimated_at :: string

record store =
  participants :: "participant list"
  user_stories :: "story list"
  estimates :: "estimate list"

text \<open>
  A \<^verbatim>\<open>pandas.DataFrame\<close> of rows. \<^verbatim>\<open>pd.DataFrame()\<close> has no row and no column
  at all, and asking it for a column raises \<^verbatim>\<open>KeyError\<close>; a frame built from
  records, or filtered from such a frame, has its columns even when no row is left.
\<close>

datatype 'r frame = No_columns | DataFrame "'r list"

fun rows :: "'r frame \<Rightarrow> 'r list" where
  "rows No_columns = []"
| "rows (DataFrame rs) = rs"

fun has_columns :: "'r frame \<Rightarrow> bool" where
  "has_columns No_columns = False"
| "has_columns (DataFrame rs) = True"

definition empty_frame :: "'r frame" where
  "empty_frame = No_columns"

text \<open>Boolean indexing, \<^verbatim>\<open>df[mask]\<close>, once the mask has been computed.\<close>

fun select_rows :: "('r \<Rightarrow> bool) \<Rightarrow> 'r frame \<Rightarrow> 'r frame" where
  "select_rows keep No_columns = No_columns"
| "select_rows keep (DataFrame rs) = DataFrame (filter keep rs)"

definition df_empty :: "'r frame \<Rightarrow> bool" where
  "df_empty df \<longleftrightarrow> rows df = []"

definition column :: "'r frame \<Rightarrow> string \<Rightarrow> ('r \<Rightarrow> 'a) \<Rightarrow> py_exc + 'a list" where
  "column df name field =
     (if has_columns df then Inr (map field (rows df)) else Inl (KeyError name))"

text \<open>\<^verbatim>\<open>pd.DataFrame(result.data) if result.data else pd.DataFrame()\<close>.\<close>

definition frame_of_data :: "'r list \<Rightarrow> 'r frame" where
  "frame_of_data data = (if data \<noteq> [] then DataFrame data else empty_frame)"

text \<open>
  The store's calls. Call number \<open>k\<close> raises when \<open>faults env k\<close>; otherwise a
  query returns the rows that match, in table order, an insert appends the rows and returns
  them, and an update rewrites the matching rows.
\<close>

definition select_participants :: "env \<Rightarrow> nat \<Rightarrow> store \<Rightarrow> nat \<Rightarrow> py_exc + participant list" where
  "select_participants env k db session_id =
     (if faults env k then Inl APIError
      else Inr (filter (\<lambda>p. p_session_id p = session_id) (participants db)))"

definition insert_estimates :: "env \<Rightarrow> nat \<Rightarrow> store \<Rightarrow> estimate list \<Rightarrow> py_exc + (estimate list \<times> store)" where
  "insert_estimates env k db new_rows =
     (if faults env k then Inl APIError
      else Inr (new_rows, db\<lparr>estimates := estimates db @ new_rows\<rparr>))"

definition update_story :: "env \<Rightarrow> nat \<Rightarrow> store \<Rightarrow> nat \<Rightarrow> rat \<Rightarrow> py_exc + store" where
  "update_story env k db story_db_id v =
     (if faults env k then Inl APIError
      else Inr (db\<lparr>user_stories :=
             map (\<lambda>s. if s_id s = story_db_id
                      then s\<lparr>s_status := ''estimated'', s_final_estimate := Some v,
                             s_last_estimated_at := Some (now env)\<rparr>
                      else s)
                 (user_stories db)\<rparr>))"

text \<open>\<^verbatim>\<open>get_participants_df\<close>: a failing query is swallowed into the empty frame.\<close>

definition get_participants_df :: "env \<Rightarrow> nat \<Rightarrow> store \<Rightarrow> nat \<Rightarrow> participant frame" where
  "get_participants_df env k db session_id =
     (case select_participants env k db session_id of
        Inl e \<Rightarrow> empty_frame
      | Inr data \<Rightarrow> frame_of_data data)"

subsection \<open>What the round displays\<close>

datatype meaning = Necesita_mas_informacion | Demasiado_complejo

datatype ui =
    Markdown_resultados
  | Dataframe_resultados "(string \<times> pyval) list"
  | Warning_especiales
  | Write_especial string pyval meaning
  | Metric_minimo rat
  | Metric_maximo rat
  | Metric_promedio rat
  | Bar_estimaciones "(string \<times> rat) list"
  | Success_consenso rat
  | Success_guardada
  | Rerun
  | Error_actualizando py_exc
  | Error_guardando py_exc
  | Warning_sin_consenso rat rat
  | Info_discutan

subsection \<open>\<^verbatim>\<open>save_estimates\<close>\<close>

text \<open>
  The loop over \<^verbatim>\<open>estimates_dict.items()\<close>. Each pass first asks the frame for its
  \<^verbatim>\<open>'name'\<close> column, keeps the entry when a participant of that name exists (the first
  one gives the identifier) and drops it otherwise.
\<close>

fun estimates_data :: "env \<Rightarrow> participant frame \<Rightarrow> nat \<Rightarrow> (string \<times> pyval) list \<Rightarrow> py_exc + estimate list" where
  "estimates_data env participants_df story_db_id [] = Inr []"
| "estimates_data env participants_df story_db_id ((participant_name, est) # rest) =
     (case column participants_df ''name'' p_name of
        Inl e \<Rightarrow> Inl e
      | Inr names \<Rightarrow>
          (let participant_row = filter (\<lambda>p. p_name p = participant_name) (rows participants_df)
           in case estimates_data env participants_df story_db_id rest of
                Inl e \<Rightarrow> Inl e
              | Inr kept \<Rightarrow>
                  (if participant_row \<noteq> []
                   then Inr (\<lparr>e_session_id = current_session_id env,
                              e_story_id = story_db_id,
                              e_participant_id = p_id (hd participant_row),
                              e_estimate = py_str env est,
                              e_estimated_at = now env\<rparr> # kept)
                   else Inr kept)))"

text \<open>
  \<^verbatim>\<open>save_estimates\<close> returns its boolean, what its handler displayed, and the store.
  Its first store call has number \<open>k\<close>, the insert number \<open>k + 1\<close>.
\<close>

definition save_estimates :: "env \<Rightarrow> nat \<Rightarrow> store \<Rightarrow> nat \<Rightarrow> (string \<times> pyval) list \<Rightarrow> bool \<times> ui list \<times> store" where
  "save_estimates env k db story_db_id estimates_dict =
     (let participants_df = get_participants_df env k db (current_session_id env)
      in case estimates_data env participants_df story_db_id estimates_dict of
           Inl e \<Rightarrow> (False, [Error_guardando e], db)
         | Inr new_rows \<Rightarrow>
             (if new_rows \<noteq> []
              then (case insert_estimates env (k + 1) db new_rows of
                      Inl e \<Rightarrow> (False, [Error_guardando e], db)
                    | Inr (data, db') \<Rightarrow> (data \<noteq> [], [], db'))
              else (False, [], db)))"

subsection \<open>\<^verbatim>\<open>analyze_estimates\<close>\<close>

definition is_special :: "pyval \<Rightarrow> bool" where
  "is_special estimate \<longleftrightarrow> estimate \<in> set special_cards"

text \<open>
  The first loop: a special card goes to \<open>special_estimates\<close>; any other value goes to
  \<open>numeric_estimates\<close> when \<^verbatim>\<open>float\<close> reads it, and is dropped by the bare
  \<^verbatim>\<open>except: pass\<close> when it does not.
\<close>

fun numeric_estimates :: "env \<Rightarrow> (string \<times> pyval) list \<Rightarrow> (string \<times> rat) list" where
  "numeric_estimates env [] = []"
| "numeric_estimates env ((participant, estimate) # rest) =
     (if is_special estimate then numeric_estimates env rest
      else case py_float env estimate of
             Inl e \<Rightarrow> numeric_estimates env rest
           | Inr x \<Rightarrow> (participant, x) # numeric_estimates env rest)"

fun special_estimates :: "(string \<times> pyval) list \<Rightarrow> (string \<times> pyval) list" where
  "special_estimates [] = []"
| "special_estimates ((participant, estimate) # rest) =
     (if is_special estimate then (participant, estimate) # special_estimates rest
      else special_estimates rest)"

definition write_especial :: "string \<times> pyval \<Rightarrow> ui" where
  "write_especial pe =
     Write_especial (fst pe) (snd pe)
       (if snd pe = PyStr unknown_card then Necesita_mas_informacion else Demasiado_complejo)"

text \<open>\<^verbatim>\<open>min(values)\<close> and \<^verbatim>\<open>max(values)\<close>, called on a list of at least two
  values.\<close>

definition py_min :: "rat list \<Rightarrow> rat" where
  "py_min values = foldl min (hd values) (tl values)"

definition py_max :: "rat list \<Rightarrow> rat" where
  "py_max values = foldl max (hd values) (tl values)"

text \<open>
  The format \<^verbatim>\<open>:.1f\<close> of a double, which is given by its exact value: the multiple of
  one tenth nearest to that value, a tie going to the even digit.
\<close>

definition round_half_even :: "rat \<Rightarrow> int" where
  "round_half_even x =
     (let f = \<lfloor>x\<rfloor>; d = x - of_int f
      in if d < 1 / 2 then f else if 1 / 2 < d then f + 1 else if even f then f else f + 1)"

definition fmt_1f :: "rat \<Rightarrow> rat" where
  "fmt_1f x = of_int (round_half_even (10 * x)) / 10"

text \<open>What is displayed before the statistics: the heading, the table of every entry, and
  one line for each special card.\<close>

definition show_estimates :: "(string \<times> pyval) list \<Rightarrow> (string \<times> pyval) list \<Rightarrow> ui list" where
  "show_estimates estimates_dict special =
     [Markdown_resultados, Dataframe_resultados estimates_dict]
     @ (if special \<noteq> [] then Warning_especiales # map write_especial special else [])"

text \<open>The three metrics and the bar chart.\<close>

definition show_statistics :: "env \<Rightarrow> (string \<times> rat) list \<Rightarrow> ui list" where
  "show_statistics env numeric =
     (let values = map snd numeric
      in [Metric_minimo (py_min values), Metric_maximo (py_max values),
          Metric_promedio (fmt_1f (np_mean env values)), Bar_estimaciones numeric])"

text \<open>
  \<^verbatim>\<open>analyze_estimates\<close> returns what it displayed and the store it leaves. In the
  consensus branch \<^verbatim>\<open>save_estimates\<close> makes the store calls 0 and 1, and the update of
  the story is call 2; \<^verbatim>\<open>st.rerun()\<close> ends the run.
\<close>

definition analyze_estimates :: "env \<Rightarrow> store \<Rightarrow> nat \<Rightarrow> (string \<times> pyval) list \<Rightarrow> ui list \<times> store" where
  "analyze_estimates env db story_row_id estimates_dict =
     (let numeric = numeric_estimates env estimates_dict;
          special = special_estimates estimates_dict;
          shown = show_estimates estimates_dict special
      in if 1 < length numeric then
           (let values = map snd numeric;
                shown = shown @ show_statistics env numeric
            in if length (remdups values) = 1 then
                 (case save_estimates env 0 db story_row_id estimates_dict of
                    (saved, errors, db') \<Rightarrow>
                      (if saved then
                         (case update_story env 2 db' story_row_id (hd values) of
                            Inl e \<Rightarrow>
                              (shown @ [Success_consenso (hd values)] @ errors
                                 @ [Error_actualizando e], db')
                          | Inr db'' \<Rightarrow>
                              (shown @ [Success_consenso (hd values)] @ errors
                                 @ [Success_guardada, Rerun], db''))
                       else (shown @ [Success_consenso (hd values)] @ errors, db')))
               else (shown @ [Warning_sin_consenso (py_min values) (py_max values),
                              Info_discutan], db))
         else (shown, db))"

text \<open>
  The verdict of a round, read off what it displayed: the consensus banner carries the agreed
  value, the no-consensus warning carries the range, and a round that displays neither has
  reached no verdict.
\<close>

datatype round_result = Consensus rat | NoConsensus rat rat | Inconclusive

fun round_result_of :: "ui list \<Rightarrow> round_result" where
  "round_result_of [] = Inconclusive"
| "round_result_of (Success_consenso v # es) = Consensus v"
| "round_result_of (Warning_sin_consenso lo hi # es) = NoConsensus lo hi"
| "round_result_of (e # es) = round_result_of es"

definition evaluate :: "env \<Rightarrow> store \<Rightarrow> nat \<Rightarrow> (string \<times> pyval) list \<Rightarrow> round_result" where
  "evaluate env db story_row_id estimates_dict =
     round_result_of (fst (analyze_estimates env db story_row_id estimates_dict))"

subsection \<open>The queries of the analytics\<close>

record estimate_row =
  r_story_id :: string
  r_story_title :: string
  r_participant_name :: string
  r_participant_role :: string
  r_estimate :: string
  r_estimated_at :: string

definition select_stories :: "env \<Rightarrow> nat \<Rightarrow> store \<Rightarrow> nat \<Rightarrow> py_exc + story list" where
  "select_stories env k db session_id =
     (if faults env k then Inl APIError
      else Inr (filter (\<lambda>s. s_session_id s = session_id) (user_stories db)))"

definition select_estimates :: "env \<Rightarrow> nat \<Rightarrow> store \<Rightarrow> nat \<Rightarrow> py_exc + estimate list" where
  "select_estimates env k db session_id =
     (if faults env k then Inl APIError
      else Inr (filter (\<lambda>e. e_session_id e = session_id) (estimates db)))"

definition select_participant_by_id :: "env \<Rightarrow> nat \<Rightarrow> store \<Rightarrow> nat \<Rightarrow> py_exc + participant list" where
  "select_participant_by_id env k db pid =
     (if faults env k then Inl APIError
      else Inr (filter (\<lambda>p. p_id p = pid) (participants db)))"

definition select_story_by_id :: "env \<Rightarrow> nat \<Rightarrow> store \<Rightarrow> nat \<Rightarrow> py_exc + story list" where
  "select_story_by_id env k db sid =
     (if faults env k then Inl APIError
      else Inr (filter (\<lambda>s. s_id s = sid) (user_stories db)))"

text \<open>\<^verbatim>\<open>get_stories_df\<close>, with the same swallowing handler as \<^verbatim>\<open>get_participants_df\<close>.\<close>

definition get_stories_df :: "env \<Rightarrow> nat \<Rightarrow> store \<Rightarrow> nat \<Rightarrow> story frame" where
  "get_stories_df env k db session_id =
     (case select_stories env k db session_id of
        Inl e \<Rightarrow> empty_frame
      | Inr data \<Rightarrow> frame_of_data data)"

text \<open>
  The loop of \<^verbatim>\<open>get_estimates_df\<close>: two queries for each estimate, numbered \<open>k\<close>
  and \<open>k + 1\<close>, with the placeholders \<^verbatim>\<open>'Desconocido'\<close> and \<^verbatim>\<open>'N/A'\<close> for a
  participant or a story that is not found.
\<close>

fun enrich :: "env \<Rightarrow> nat \<Rightarrow> store \<Rightarrow> estimate list \<Rightarrow> py_exc + estimate_row list" where
  "enrich env k db [] = Inr []"
| "enrich env k db (e # rest) =
     (case select_participant_by_id env k db (e_participant_id e) of
        Inl x \<Rightarrow> Inl x
      | Inr pdata \<Rightarrow>
          (case select_story_by_id env (k + 1) db (e_story_id e) of
             Inl x \<Rightarrow> Inl x
           | Inr sdata \<Rightarrow>
               (case enrich env (k + 2) db rest of
                  Inl x \<Rightarrow> Inl x
                | Inr tail_rows \<Rightarrow>
                    Inr (\<lparr>r_story_id = (if sdata \<noteq> [] then s_story_id (hd sdata) else ''N/A''),
                          r_story_title = (if sdata \<noteq> [] then s_title (hd sdata) else ''N/A''),
                          r_participant_name =
                            (if pdata \<noteq> [] then p_name (hd pdata) else ''Desconocido''),
                          r_participant_role = (if pdata \<noteq> [] then p_role (hd pdata) else ''N/A''),
                          r_estimate = e_estimate e,
                          r_estimated_at = e_estimated_at e\<rparr> # tail_rows))))"

text \<open>
  \<^verbatim>\<open>get_estimates_df\<close> returns the frame and the errors its handler displayed. Its first
  query has number \<open>k\<close>.
\<close>

definition get_estimates_df :: "env \<Rightarrow> nat \<Rightarrow> store \<Rightarrow> nat \<Rightarrow> estimate_row frame \<times> py_exc list" where
  "get_estimates_df env k db session_id =
     (case select_estimates env k db session_id of
        Inl e \<Rightarrow> (empty_frame, [e])
      | Inr data \<Rightarrow>
          (if data = [] then (empty_frame, [])
           else case enrich env (k + 1) db data of
                  Inl e \<Rightarrow> (empty_frame, [e])
                | Inr found \<Rightarrow> (DataFrame found, [])))"

subsection \<open>Series\<close>

text \<open>
  \<^verbatim>\<open>pd.to_numeric(series, errors='coerce').dropna()\<close>; the mean and the median of a series,
  \<open>None\<close> standing for NaN; \<^verbatim>\<open>nunique\<close>.
\<close>

definition numeric_series :: "env \<Rightarrow> string list \<Rightarrow> rat list" where
  "numeric_series env series = List.map_filter (to_numeric env) series"

definition series_mean :: "env \<Rightarrow> rat list \<Rightarrow> rat option" where
  "series_mean env xs = (if xs = [] then None else Some (pd_mean env xs))"

definition series_median :: "env \<Rightarrow> rat list \<Rightarrow> rat option" where
  "series_median env xs = (if xs = [] then None else Some (pd_median env xs))"

definition nunique :: "'a list \<Rightarrow> nat" where
  "nunique xs = length (remdups xs)"

text \<open>The format \<^verbatim>\<open>:.1f\<close> of a value that may be NaN (displayed as \<^verbatim>\<open>nan\<close>).\<close>

definition fmt_1f_nan :: "rat option \<Rightarrow> rat option" where
  "fmt_1f_nan x = map_option fmt_1f x"

text \<open>Sequencing of steps that may raise.\<close>

definition and_then :: "py_exc + 'a \<Rightarrow> ('a \<Rightarrow> py_exc + 'b) \<Rightarrow> py_exc + 'b" where
  "and_then r f = (case r of Inl e \<Rightarrow> Inl e | Inr x \<Rightarrow> f x)"

subsection \<open>\<^verbatim>\<open>render_analytics_tab\<close>\<close>

record analytics =
  historias_estimadas :: nat
  total_estimaciones :: nat
  promedio :: rat
  participantes_activos :: nat
  distribucion :: "rat list option"
  promedio_por_participante :: "(string \<times> rat) list option"
  detalle :: "estimate_row list"

datatype analytics_view = No_hay_estimaciones | Analytics analytics

text \<open>
  \<^verbatim>\<open>groupby('participant_name')['estimate'].apply(...)\<close> followed by \<^verbatim>\<open>dropna\<close>:
  the groups in key order, each with the mean of what \<^verbatim>\<open>to_numeric\<close> reads in it; a group
  with nothing numeric has mean NaN and is dropped.
\<close>

definition participant_stats :: "env \<Rightarrow> estimate_row list \<Rightarrow> (string \<times> rat) list" where
  "participant_stats env found =
     List.map_filter
       (\<lambda>name. map_option (Pair name)
          (series_mean env (numeric_series env
             (map r_estimate (filter (\<lambda>r. r_participant_name r = name) found)))))
       (sort (remdups (map r_participant_name found)))"

text \<open>The metrics, the two charts and the table, from the frame of estimates.\<close>

definition analytics_of :: "env \<Rightarrow> estimate_row frame \<Rightarrow> py_exc + analytics_view" where
  "analytics_of env estimates_df =
     (if \<not> df_empty estimates_df then
        and_then (column estimates_df ''story_id'' r_story_id) (\<lambda>story_ids.
        and_then (column estimates_df ''estimate'' r_estimate) (\<lambda>series.
        and_then (column estimates_df ''participant_name'' r_participant_name) (\<lambda>names.
          (let numeric = numeric_series env series;
               avg_estimate = (if numeric \<noteq> [] then pd_mean env numeric else 0);
               stats = participant_stats env (rows estimates_df)
           in Inr (Analytics
                \<lparr>historias_estimadas = nunique story_ids,
                 total_estimaciones = length (rows estimates_df),
                 promedio = fmt_1f avg_estimate,
                 participantes_activos = nunique names,
                 distribucion = (if numeric \<noteq> [] then Some numeric else None),
                 promedio_por_participante = (if stats \<noteq> [] then Some stats else None),
                 detalle = rows estimates_df\<rparr>)))))
      else Inr No_hay_estimaciones)"

text \<open>\<^verbatim>\<open>render_analytics_tab\<close> returns the view and the errors displayed on the way.\<close>

definition render_analytics_tab :: "env \<Rightarrow> store \<Rightarrow> py_exc + (analytics_view \<times> py_exc list)" where
  "render_analytics_tab env db =
     (case get_estimates_df env 0 db (current_session_id env) of
        (estimates_df, errors) \<Rightarrow>
          and_then (analytics_of env estimates_df) (\<lambda>view. Inr (view, errors)))"

subsection \<open>The executive summary of \<^verbatim>\<open>render_reports_tab\<close>\<close>

record story_summary =
  historias_total :: nat
  historias_estimadas_n :: nat
  historias_pendientes :: int
  story_points :: rat

record estimate_summary =
  estimaciones_total :: nat
  estimaciones_promedio :: "rat option"
  estimaciones_mediana :: "rat option"
  estimaciones_participantes :: nat

text \<open>\<^verbatim>\<open>estimated_stories['final_estimate'].sum()\<close>: a missing value adds nothing.\<close>

definition final_estimate_sum :: "story list \<Rightarrow> rat" where
  "final_estimate_sum ss =
     sum_list (map (\<lambda>s. case s_final_estimate s of None \<Rightarrow> 0 | Some x \<Rightarrow> x) ss)"

definition stories_summary :: "story frame \<Rightarrow> py_exc + story_summary option" where
  "stories_summary stories_df =
     (if \<not> df_empty stories_df then
        and_then (column stories_df ''status'' s_status) (\<lambda>statuses.
          (let estimated_stories =
                 select_rows (\<lambda>s. s_status s = ''estimated'') stories_df;
               total_points =
                 (if has_columns estimated_stories \<and> \<not> df_empty estimated_stories
                  then final_estimate_sum (rows estimated_stories) else 0)
           in Inr (Some
                \<lparr>historias_total = length (rows stories_df),
                 historias_estimadas_n = length (rows estimated_stories),
                 historias_pendientes =
                   int (length (rows stories_df)) - int (length (rows estimated_stories)),
                 story_points = total_points\<rparr>)))
      else Inr None)"

definition estimates_summary :: "env \<Rightarrow> participant frame \<Rightarrow> estimate_row frame \<Rightarrow> py_exc + estimate_summary option" where
  "estimates_summary env participants_df estimates_df =
     (if \<not> df_empty estimates_df then
        and_then (column estimates_df ''estimate'' r_estimate) (\<lambda>series.
        and_then (if \<not> df_empty participants_df
                  then and_then (column participants_df ''name'' p_name) (\<lambda>names. Inr (nunique names))
                  else Inr 0) (\<lambda>n_participants.
          (let numeric = numeric_series env series
           in Inr (Some
                \<lparr>estimaciones_total = length (rows estimates_df),
                 estimaciones_promedio = fmt_1f_nan (series_mean env numeric),
                 estimaciones_mediana = fmt_1f_nan (series_median env numeric),
                 estimaciones_participantes = n_participants\<rparr>))))
      else Inr None)"

definition render_reports_tab :: "env \<Rightarrow> store \<Rightarrow> py_exc + (story_summary option \<times> estimate_summary option \<times> py_exc list)" where
  "render_reports_tab env db =
     (let stories_df = get_stories_df env 0 db (current_session_id env);
          participants_df = get_participants_df env 1 db (current_session_id env)
      in case get_estimates_df env 2 db (current_session_id env) of
           (estimates_df, errors) \<Rightarrow>
             and_then (stories_summary stories_df) (\<lambda>historias.
             and_then (estimates_summary env participants_df estimates_df) (\<lambda>estimaciones.
               Inr (historias, estimaciones, errors))))"

subsection \<open>Auxiliary notions for the properties\<close>

text \<open>The two displays that carry a verdict.\<close>

fun is_verdict :: "ui \<Rightarrow> bool" where
  "is_verdict (Success_consenso v) = True"
| "is_verdict (Warning_sin_consenso lo hi) = True"
| "is_verdict e = False"

text \<open>An entry the first loop keeps: a special card, or a value \<^verbatim>\<open>float\<close> reads.\<close>

definition readable :: "env \<Rightarrow> string \<times> pyval \<Rightarrow> bool" where
  "readable env pe \<longleftrightarrow>
     is_special (snd pe) \<or> (case py_float env (snd pe) of Inl e \<Rightarrow> False | Inr x \<Rightarrow> True)"

subsection \<open>A concrete environment\<close>

text \<open>
  Plain decimal notation, an optional minus sign, digits, and an optional point followed by
  digits: what \<^verbatim>\<open>str\<close> writes for a card of the deck, and what both \<^verbatim>\<open>float\<close> and
  \<^verbatim>\<open>to_numeric\<close> read back as the same number.
\<close>

definition digit_value :: "char \<Rightarrow> nat option" where
  "digit_value c =
     (let n = (of_char c :: nat) in if 48 \<le> n \<and> n \<le> 57 then Some (n - 48) else None)"

fun read_digits :: "nat \<Rightarrow> string \<Rightarrow> nat option" where
  "read_digits acc [] = Some acc"
| "read_digits acc (c # cs) =
     (case digit_value c of None \<Rightarrow> None | Some d \<Rightarrow> read_digits (10 * acc + d) cs)"

definition read_unsigned :: "string \<Rightarrow> rat option" where
  "read_unsigned s =
     (let whole = takeWhile (\<lambda>c. c \<noteq> CHR ''.'') s;
          rest = dropWhile (\<lambda>c. c \<noteq> CHR ''.'') s
      in if whole = [] then None
         else case read_digits 0 whole of
                None \<Rightarrow> None
              | Some w \<Rightarrow>
                  (if rest = [] then Some (of_nat w)
                   else if tl rest = [] then None
                   else case read_digits 0 (tl rest) of
                          None \<Rightarrow> None
                        | Some f \<Rightarrow> Some (of_nat w + of_nat f / 10 ^ length (tl rest))))"

definition read_decimal :: "string \<Rightarrow> rat option" where
  "read_decimal s =
     (case s of
        [] \<Rightarrow> None
      | c # cs \<Rightarrow> if c = CHR ''-'' then map_option uminus (read_unsigned cs) else read_unsigned s)"

text \<open>
  Rounding to the nearest double, a tie going to the even significand of 53 bits (for the
  normal range of exponents: overflow and subnormal numbers are left out).
\<close>

fun bit_length :: "nat \<Rightarrow> nat" where
  "bit_length n = (if n = 0 then 0 else Suc (bit_length (n div 2)))"

definition pow2 :: "int \<Rightarrow> rat" where
  "pow2 e = (if 0 \<le> e then 2 ^ nat e else 1 / 2 ^ nat (- e))"

definition floor_log2 :: "rat \<Rightarrow> int" where
  "floor_log2 a =
     (case quotient_of a of
        (p, q) \<Rightarrow>
          (let c = int (bit_length (nat p)) - int (bit_length (nat q))
           in if pow2 c \<le> a then c else c - 1))"

definition round_double :: "rat \<Rightarrow> rat" where
  "round_double x =
     (if x = 0 then 0
      else (let e = floor_log2 \<bar>x\<bar> - 52
            in sgn x * of_int (round_half_even (\<bar>x\<bar> / pow2 e)) * pow2 e))"

text \<open>
  The mean of doubles whose partial sums are all doubles, as they are for cards of the deck
  (multiples of one half): the sum is then exact in whatever order it is taken, and only the
  division rounds. This is what both \<^verbatim>\<open>numpy.mean\<close> and the mean of a pandas series
  return on such values.
\<close>

definition double_mean :: "rat list \<Rightarrow> rat" where
  "double_mean xs = round_double (sum_list xs / of_nat (length xs))"

text \<open>The median of a series of doubles that is not empty: the middle value in sorted order,
  or half the rounded sum of the two middle values.\<close>

definition double_median :: "rat list \<Rightarrow> rat" where
  "double_median xs =
     (let ys = sort xs; n = length ys
      in if odd n then ys ! (n div 2)
         else round_double (ys ! (n div 2 - 1) + ys ! (n div 2)) / 2)"

text \<open>One fractional digit: how Python prints the non-negative halves and wholes of the deck.\<close>

definition show_tenths :: "rat \<Rightarrow> string" where
  "show_tenths x = str_of_int \<lfloor>x\<rfloor> @ ''.'' @ str_of_nat (nat \<lfloor>10 * (x - of_int \<lfloor>x\<rfloor>)\<rfloor>)"

definition plain_env :: env where
  "plain_env =
     \<lparr>current_session_id = 1, now = ''2024-05-01T10:00:00'', faults = (\<lambda>k. False),
      float_of_str = read_decimal, str_of_float = show_tenths, to_numeric = read_decimal,
      np_mean = double_mean, pd_mean = double_mean, pd_median = double_median\<rparr>"

definition offline_env :: env where
  "offline_env = plain_env\<lparr>faults := (\<lambda>k. True)\<rparr>"

text \<open>A session with two participants and one pending story.\<close>

definition ana :: participant where
  "ana = \<lparr>p_id = 10, p_session_id = 1, p_name = ''Ana'', p_role = ''Developer'',
          p_email = None, p_joined_at = ''2024-05-01T09:00:00''\<rparr>"

definition luis :: participant where
  "luis = \<lparr>p_id = 11, p_session_id = 1, p_name = ''Luis'', p_role = ''QA'',
           p_email = None, p_joined_at = ''2024-05-01T09:01:00''\<rparr>"

definition us_001 :: story where
  "us_001 = \<lparr>s_id = 7, s_session_id = 1, s_story_id = ''US-001'', s_title = ''Login'',
             s_description = ''As a user'', s_acceptance_criteria = ''Can log in'',
             s_priority = ''High'',
             s_status = ''pending'', s_final_estimate = None, s_last_estimated_at = None\<rparr>"

definition session_store :: store where
  "session_store = \<lparr>participants = [ana, luis], user_stories = [us_001], estimates = []\<rparr>"


definition tokens_store :: store where
  "tokens_store =
     session_store\<lparr>estimates :=
       [\<lparr>e_session_id = 1, e_story_id = 7, e_participant_id = 10, e_estimate = unknown_card,
          e_estimated_at = ''2024-05-01T09:30:00''\<rparr>,
        \<lparr>e_session_id = 1, e_story_id = 7, e_participant_id = 11, e_estimate = infinity_card,
          e_estimated_at = ''2024-05-01T09:30:00''\<rparr>]\<rparr>"

text \<open>A round of ten participants: one plays 0.5 and nine play 5.\<close>

definition ten_cards :: "(string \<times> pyval) list" where
  "ten_cards =
     [(''P0'', PyFloat (1 / 2)), (''P1'', PyInt 5), (''P2'', PyInt 5), (''P3'', PyInt 5),
      (''P4'', PyInt 5), (''P5'', PyInt 5), (''P6'', PyInt 5), (''P7'', PyInt 5),
      (''P8'', PyInt 5), (''P9'', PyInt 5)]"


section \<open>Properties of the estimation round\<close>

subsection \<open>The verdict\<close>

lemma round_result_of_skip:
  "\<not> is_verdict e \<Longrightarrow> round_result_of (e # es) = round_result_of es"
  by (cases e) simp_all

lemma round_result_of_append:
  "list_all (\<lambda>e. \<not> is_verdict e) pre \<Longrightarrow> round_result_of (pre @ rest) = round_result_of rest"
  by (induction pre) (simp_all add: round_result_of_skip)

lemma no_verdict_write_especial: "list_all (\<lambda>e. \<not> is_verdict e) (map write_especial sp)"
  by (induction sp) (simp_all add: write_especial_def)

lemma no_verdict_show_estimates: "list_all (\<lambda>e. \<not> is_verdict e) (show_estimates b sp)"
  by (simp add: show_estimates_def no_verdict_write_especial)

lemma no_verdict_show_statistics: "list_all (\<lambda>e. \<not> is_verdict e) (show_statistics env numeric)"
  by (simp add: show_statistics_def Let_def)

lemma round_result_of_shown:
  "round_result_of (show_estimates b sp) = Inconclusive"
  "round_result_of (show_estimates b sp @ show_statistics env numeric @ rest) = round_result_of rest"
  using round_result_of_append [OF no_verdict_show_estimates, of b sp "[]"]
  by (simp_all add: round_result_of_append no_verdict_show_estimates no_verdict_show_statistics)

lemma evaluate_cases:
  "evaluate env db sid b =
     (let values = map snd (numeric_estimates env b)
      in if 1 < length values then
           if length (remdups values) = 1 then Consensus (hd values)
           else NoConsensus (py_min values) (py_max values)
         else Inconclusive)"
  unfolding evaluate_def analyze_estimates_def Let_def
  by (simp add: round_result_of_shown split: prod.splits sum.splits)

lemma py_min_eq_Min: "values \<noteq> [] \<Longrightarrow> py_min values = Min (set values)"
proof -
  assume "values \<noteq> []"
  then obtain x xs where v: "values = x # xs" by (cases "values") auto
  have "foldl min x xs = fold min xs x"
    by (simp add: foldl_conv_fold min.commute)
  also have "\<dots> = Min (set (x # xs))"
    by (rule Min.set_eq_fold [symmetric])
  finally show ?thesis
    by (simp add: v py_min_def)
qed

lemma py_max_eq_Max: "values \<noteq> [] \<Longrightarrow> py_max values = Max (set values)"
proof -
  assume "values \<noteq> []"
  then obtain x xs where v: "values = x # xs" by (cases "values") auto
  have "foldl max x xs = fold max xs x"
    by (simp add: foldl_conv_fold max.commute)
  also have "\<dots> = Max (set (x # xs))"
    by (rule Max.set_eq_fold [symmetric])
  finally show ?thesis
    by (simp add: v py_max_def)
qed

lemma one_distinct_value:
  "length (remdups xs) = 1 \<longleftrightarrow> xs \<noteq> [] \<and> (\<forall>x\<in>set xs. x = hd xs)"
proof
  assume "length (remdups xs) = 1"
  then have c: "card (set xs) = 1" by (simp add: length_remdups_card_conv)
  then obtain a where a: "set xs = {a}" by (auto simp: card_1_singleton_iff)
  then have "xs \<noteq> []" by auto
  moreover from this a have "hd xs = a" using hd_in_set [of xs] by auto
  ultimately show "xs \<noteq> [] \<and> (\<forall>x\<in>set xs. x = hd xs)" using a by auto
next
  assume h: "xs \<noteq> [] \<and> (\<forall>x\<in>set xs. x = hd xs)"
  then have "set xs = {hd xs}" using hd_in_set [of xs] by auto
  then have "card (set xs) = 1" by simp
  then show "length (remdups xs) = 1" by (simp add: length_remdups_card_conv)
qed

lemma all_equal_one_distinct:
  "xs \<noteq> [] \<Longrightarrow> \<forall>x\<in>set xs. x = v \<Longrightarrow> length (remdups xs) = 1 \<and> hd xs = v"
proof -
  assume ne: "xs \<noteq> []" and eq: "\<forall>x\<in>set xs. x = v"
  from ne eq have h: "hd xs = v" using hd_in_set [of xs] by blast
  from ne eq h have "xs \<noteq> [] \<and> (\<forall>x\<in>set xs. x = hd xs)" by blast
  then have "length (remdups xs) = 1" by (rule one_distinct_value [THEN iffD2])
  with h show ?thesis by simp
qed

lemma special_estimates_filter:
  "special_estimates b = filter (\<lambda>pe. is_special (snd pe)) b"
  by (induction b rule: special_estimates.induct) simp_all

lemma fst_analyze_estimates_prefix:
  "\<exists>rest. fst (analyze_estimates env db sid b) = show_estimates b (special_estimates b) @ rest"
  unfolding analyze_estimates_def Let_def
  by (simp split: prod.splits sum.splits)

text \<open>
  C1 (as amended). In a batch with a special card in which all numeric entries are equal, the
  special card does not stand in the way of consensus: with two or more numeric entries the
  verdict is the consensus on their value, with fewer there is no verdict. The special card is
  only reported, in the warning.
\<close>

theorem consensus_ignores_special_cards:
  assumes "special_estimates b \<noteq> []"
    and "\<forall>x\<in>set (map snd (numeric_estimates env b)). x = v"
  shows "evaluate env db sid b =
           (if 1 < length (numeric_estimates env b) then Consensus v else Inconclusive)
         \<and> Warning_especiales \<in> set (fst (analyze_estimates env db sid b))"
proof -
  let ?vs = "map snd (numeric_estimates env b)"
  have "evaluate env db sid b = Consensus v" if "1 < length (numeric_estimates env b)"
  proof -
    from that have "?vs \<noteq> []" by auto
    from all_equal_one_distinct [OF this assms(2)] that show ?thesis
      by (simp add: evaluate_cases)
  qed
  moreover have "evaluate env db sid b = Inconclusive" if "\<not> 1 < length (numeric_estimates env b)"
    using that by (simp add: evaluate_cases)
  moreover have "Warning_especiales \<in> set (fst (analyze_estimates env db sid b))"
    using fst_analyze_estimates_prefix [of env db sid b] assms(1)
    by (auto simp: show_estimates_def)
  ultimately show ?thesis by simp
qed

text \<open>
  C1, as stated, fails: Ana and Luis play 5 and Marta plays the unknown card; the verdict is
  the consensus on 5.
\<close>

theorem special_card_blocks_consensus_refuted:
  "special_estimates [(''Ana'', PyInt 5), (''Luis'', PyInt 5), (''Marta'', PyStr unknown_card)] \<noteq> []
   \<and> map snd (numeric_estimates plain_env
        [(''Ana'', PyInt 5), (''Luis'', PyInt 5), (''Marta'', PyStr unknown_card)]) = [5, 5]
   \<and> evaluate plain_env session_store 7
        [(''Ana'', PyInt 5), (''Luis'', PyInt 5), (''Marta'', PyStr unknown_card)] = Consensus 5"
  by code_simp

theorem consensus_ignores_special_cards_witness:
  "special_estimates [(''Ana'', PyInt 5), (''Luis'', PyInt 5), (''Marta'', PyStr infinity_card)] \<noteq> []
   \<and> map snd (numeric_estimates plain_env
        [(''Ana'', PyInt 5), (''Luis'', PyInt 5), (''Marta'', PyStr infinity_card)]) = [5, 5]
   \<and> evaluate plain_env session_store 7
        [(''Ana'', PyInt 5), (''Luis'', PyInt 5), (''Marta'', PyStr infinity_card)] = Consensus 5"
proof -
  let ?b = "[(''Ana'', PyInt 5), (''Luis'', PyInt 5), (''Marta'', PyStr infinity_card)]"
  have s: "special_estimates ?b \<noteq> []"
    by (simp add: is_special_def special_cards_def)
  have n: "numeric_estimates plain_env ?b = [(''Ana'', 5), (''Luis'', 5)]"
    by (simp add: is_special_def special_cards_def)
  have a: "\<forall>x\<in>set (map snd (numeric_estimates plain_env ?b)). x = 5"
    unfolding n by simp
  have e: "evaluate plain_env session_store 7 ?b = Consensus 5"
    using consensus_ignores_special_cards [OF s a, of session_store 7] unfolding n by simp
  show ?thesis using s e unfolding n by simp
qed

lemma numeric_estimates_map_filter:
  "numeric_estimates env b =
     List.map_filter
       (\<lambda>pe. if is_special (snd pe) then None
             else case py_float env (snd pe) of Inl e \<Rightarrow> None | Inr x \<Rightarrow> Some (fst pe, x)) b"
  by (induction b rule: numeric_estimates.induct)
     (simp_all add: map_filter_simps split: sum.splits)

lemma numeric_estimates_readable:
  "numeric_estimates env (filter (readable env) b) = numeric_estimates env b"
  by (induction b rule: numeric_estimates.induct)
     (simp_all add: readable_def split: sum.splits)

lemma special_estimates_readable:
  "special_estimates (filter (readable env) b) = special_estimates b"
  by (induction b rule: special_estimates.induct) (simp_all add: readable_def)

text \<open>
  C2 (as amended). There is no deck membership test and no \<^verbatim>\<open>InvalidCard\<close>: an entry
  that is not a special card is numeric exactly when \<^verbatim>\<open>float\<close> reads it, whatever
  its value; an entry that \<^verbatim>\<open>float\<close> does not read is dropped silently, and the round
  is decided as if that entry had not been submitted.
\<close>

theorem unreadable_estimates_are_dropped:
  "numeric_estimates env b =
     List.map_filter
       (\<lambda>pe. if is_special (snd pe) then None
             else case py_float env (snd pe) of Inl e \<Rightarrow> None | Inr x \<Rightarrow> Some (fst pe, x)) b
   \<and> numeric_estimates env (filter (readable env) b) = numeric_estimates env b
   \<and> special_estimates (filter (readable env) b) = special_estimates b
   \<and> evaluate env db sid (filter (readable env) b) = evaluate env db sid b"
  using numeric_estimates_map_filter [of env b]
  by (simp add: numeric_estimates_readable special_estimates_readable evaluate_cases)

text \<open>
  C2, as stated, fails: 4 is not a card of the deck, yet it is read as a numeric estimate and
  two of them reach consensus on 4; \<^verbatim>\<open>'abc'\<close> is not a card either, and the round that
  holds it goes on with the two other entries.
\<close>

theorem invalid_card_refuted:
  "PyInt 4 \<notin> set all_cards
   \<and> py_float plain_env (PyInt 4) = Inr 4
   \<and> evaluate plain_env session_store 7 [(''Ana'', PyInt 4), (''Luis'', PyInt 4)] = Consensus 4
   \<and> PyStr ''abc'' \<notin> set all_cards
   \<and> py_float plain_env (PyStr ''abc'') = Inl ValueError
   \<and> evaluate plain_env session_store 7
        [(''Ana'', PyStr ''abc''), (''Luis'', PyInt 3), (''Marta'', PyInt 8)] = NoConsensus 3 8"
  by code_simp

text \<open>
  C3 (as amended). The round on the empty batch raises nothing: it displays the heading and the
  empty table, reaches no verdict, and leaves the store as it was.
\<close>

theorem empty_round_is_inconclusive:
  "analyze_estimates env db sid [] = ([Markdown_resultados, Dataframe_resultados []], db)
   \<and> evaluate env db sid [] = Inconclusive"
  by (simp add: evaluate_def analyze_estimates_def show_estimates_def)

text \<open>C3, as stated, fails: the empty batch is evaluated like any other, without an error.\<close>

theorem empty_round_error_refuted:
  "evaluate plain_env session_store 7 [] = Inconclusive
   \<and> analyze_estimates plain_env session_store 7 []
       = ([Markdown_resultados, Dataframe_resultados []], session_store)"
  by code_simp

text \<open>
  C4. With fewer than two numeric entries the consensus test is not reached: the round displays
  the entries and the special cards only, the store is untouched, and there is no verdict.
\<close>

theorem fewer_than_two_numeric_inconclusive:
  assumes "length (numeric_estimates env b) < 2"
  shows "evaluate env db sid b = Inconclusive
         \<and> analyze_estimates env db sid b = (show_estimates b (special_estimates b), db)"
  using assms by (simp add: evaluate_cases analyze_estimates_def)

theorem fewer_than_two_numeric_inconclusive_witness:
  "length (numeric_estimates plain_env [(''Ana'', PyInt 2)]) < 2
   \<and> evaluate plain_env session_store 7 [(''Ana'', PyInt 2)] = Inconclusive
   \<and> analyze_estimates plain_env session_store 7 [(''Ana'', PyInt 2)]
       = ([Markdown_resultados, Dataframe_resultados [(''Ana'', PyInt 2)]], session_store)"
proof -
  let ?b = "[(''Ana'', PyInt 2)]"
  have n: "numeric_estimates plain_env ?b = [(''Ana'', 2)]"
    by (simp add: is_special_def special_cards_def)
  have h: "length (numeric_estimates plain_env ?b) < 2"
    unfolding n by simp
  have s: "show_estimates ?b (special_estimates ?b) = [Markdown_resultados, Dataframe_resultados ?b]"
    by (simp add: show_estimates_def is_special_def special_cards_def)
  show ?thesis
    using fewer_than_two_numeric_inconclusive [OF h, of session_store 7] h
    unfolding s by simp
qed

lemma save_estimates_keeps:
  "participants (snd (snd (save_estimates env k db sid b))) = participants db"
  "user_stories (snd (snd (save_estimates env k db sid b))) = user_stories db"
  by (simp_all add: save_estimates_def insert_estimates_def Let_def split: sum.splits)

lemma analyze_estimates_store:
  "snd (analyze_estimates env db sid b) =
     (let values = map snd (numeric_estimates env b)
      in if 1 < length values \<and> length (remdups values) = 1 then
           (case save_estimates env 0 db sid b of
              (saved, errors, db') \<Rightarrow>
                if saved then
                  (case update_story env 2 db' sid (hd values) of Inl e \<Rightarrow> db' | Inr db'' \<Rightarrow> db'')
                else db')
         else db)"
  unfolding analyze_estimates_def Let_def
  by (simp split: prod.splits sum.splits)

lemma evaluate_Consensus_iff:
  "evaluate env db sid b = Consensus v \<longleftrightarrow>
     1 < length (numeric_estimates env b)
     \<and> length (remdups (map snd (numeric_estimates env b))) = 1
     \<and> hd (map snd (numeric_estimates env b)) = v"
  by (simp add: evaluate_cases Let_def)

text \<open>
  C5 (as amended). A round without consensus, or without a verdict, persists nothing: the store
  it leaves is the store it found, so no estimate row is added and no story is changed.
\<close>

theorem no_consensus_persists_nothing:
  assumes "evaluate env db sid b = NoConsensus lo hi \<or> evaluate env db sid b = Inconclusive"
  shows "snd (analyze_estimates env db sid b) = db"
proof -
  from assms have "\<not> (1 < length (numeric_estimates env b)
      \<and> length (remdups (map snd (numeric_estimates env b))) = 1)"
    by (auto simp: evaluate_cases Let_def split: if_splits)
  then show ?thesis
    by (auto simp: analyze_estimates_store Let_def)
qed

text \<open>
  C5, as stated, fails: Ana and Luis, both participants of the session, play 3 and 8; the
  round ends without consensus and the table of estimates is still empty.
\<close>

theorem no_consensus_rows_persisted_refuted:
  "evaluate plain_env session_store 7 [(''Ana'', PyInt 3), (''Luis'', PyInt 8)] = NoConsensus 3 8
   \<and> map p_name (participants session_store) = [''Ana'', ''Luis'']
   \<and> estimates (snd (analyze_estimates plain_env session_store 7
        [(''Ana'', PyInt 3), (''Luis'', PyInt 8)])) = []"
  by code_simp

theorem no_consensus_persists_nothing_witness:
  "evaluate plain_env session_store 7 [(''Ana'', PyInt 3), (''Luis'', PyInt 8)] = NoConsensus 3 8
   \<and> snd (analyze_estimates plain_env session_store 7 [(''Ana'', PyInt 3), (''Luis'', PyInt 8)])
       = session_store"
proof -
  let ?b = "[(''Ana'', PyInt 3), (''Luis'', PyInt 8)]"
  have e: "evaluate plain_env session_store 7 ?b = NoConsensus 3 8"
    by code_simp
  then have "evaluate plain_env session_store 7 ?b = NoConsensus 3 8
             \<or> evaluate plain_env session_store 7 ?b = Inconclusive" by simp
  from no_consensus_persists_nothing [OF this] e show ?thesis by simp
qed

subsection \<open>Saving the estimates\<close>

lemma set_map_filter_conv: "set (List.map_filter f xs) = {y. \<exists>x\<in>set xs. f x = Some y}"
  by (induction xs) (auto split: option.splits)

lemma map_filter_Nil_conv: "List.map_filter f xs = [] \<longleftrightarrow> (\<forall>x\<in>set xs. f x = None)"
  by (induction xs) (auto split: option.splits)

lemma estimates_data_No_columns:
  "estimates_data env No_columns sid (pe # rest) = Inl (KeyError ''name'')"
  by (cases pe) (simp add: column_def)

lemma estimates_data_DataFrame:
  "estimates_data env (DataFrame ps) sid b =
     Inr (List.map_filter
            (\<lambda>pe. case filter (\<lambda>p. p_name p = fst pe) ps of
                     [] \<Rightarrow> None
                   | p # _ \<Rightarrow> Some \<lparr>e_session_id = current_session_id env, e_story_id = sid,
                                     e_participant_id = p_id p, e_estimate = py_str env (snd pe),
                                     e_estimated_at = now env\<rparr>) b)"
  by (induction b) (auto simp: column_def Let_def split: list.splits)

lemma save_estimates_no_match:
  assumes "\<forall>pe\<in>set b. \<forall>p\<in>set (participants db).
             p_session_id p = current_session_id env \<longrightarrow> p_name p \<noteq> fst pe"
  shows "fst (save_estimates env k db sid b) = False \<and> snd (snd (save_estimates env k db sid b)) = db"
proof (cases "get_participants_df env k db (current_session_id env)")
  case No_columns
  then show ?thesis
    by (cases b) (simp_all add: save_estimates_def estimates_data_No_columns)
next
  case (DataFrame ps)
  then have ps: "ps = filter (\<lambda>p. p_session_id p = current_session_id env) (participants db)"
    by (auto simp: get_participants_df_def select_participants_def frame_of_data_def
          empty_frame_def split: if_splits)
  have "filter (\<lambda>p. p_name p = fst pe) ps = []" if "pe \<in> set b" for pe
    using assms that by (auto simp: ps filter_empty_conv)
  then have "List.map_filter
            (\<lambda>pe. case filter (\<lambda>p. p_name p = fst pe) ps of
                     [] \<Rightarrow> None
                   | p # _ \<Rightarrow> Some \<lparr>e_session_id = current_session_id env, e_story_id = sid,
                                     e_participant_id = p_id p, e_estimate = py_str env (snd pe),
                                     e_estimated_at = now env\<rparr>) b = []"
    by (induction b) (simp_all add: map_filter_simps)
  with DataFrame show ?thesis
    by (simp add: save_estimates_def estimates_data_DataFrame)
qed

lemma save_estimates_inserts_matching_only:
  assumes "e \<in> set (estimates (snd (snd (save_estimates env k db sid b))))"
    and "e \<notin> set (estimates db)"
  shows "\<exists>pe\<in>set b. \<exists>p\<in>set (participants db).
           p_session_id p = current_session_id env \<and> p_name p = fst pe
           \<and> e_participant_id e = p_id p \<and> e_story_id e = sid \<and> e_estimate e = py_str env (snd pe)"
proof (cases "get_participants_df env k db (current_session_id env)")
  case No_columns
  with assms show ?thesis
    by (cases b) (simp_all add: save_estimates_def estimates_data_No_columns)
next
  case (DataFrame ps)
  then have ps: "ps = filter (\<lambda>p. p_session_id p = current_session_id env) (participants db)"
    by (auto simp: get_participants_df_def select_participants_def frame_of_data_def
          empty_frame_def split: if_splits)
  let ?f = "\<lambda>pe. case filter (\<lambda>p. p_name p = fst pe) ps of
                     [] \<Rightarrow> None
                   | p # _ \<Rightarrow> Some \<lparr>e_session_id = current_session_id env, e_story_id = sid,
                                     e_participant_id = p_id p, e_estimate = py_str env (snd pe),
                                     e_estimated_at = now env\<rparr>"
  from assms DataFrame have "e \<in> set (List.map_filter ?f b)"
    by (auto simp: save_estimates_def estimates_data_DataFrame insert_estimates_def
          split: if_splits)
  then obtain pe where pe: "pe \<in> set b" "?f pe = Some e"
    by (auto simp: set_map_filter_conv)
  then obtain p rest where f: "filter (\<lambda>p. p_name p = fst pe) ps = p # rest"
    by (auto split: list.splits)
  then have "p \<in> set (filter (\<lambda>p. p_name p = fst pe) ps)" by simp
  then have "p \<in> set (participants db)" "p_session_id p = current_session_id env" "p_name p = fst pe"
    by (auto simp: ps)
  moreover from pe(2) f have "e_participant_id e = p_id p" "e_story_id e = sid"
      "e_estimate e = py_str env (snd pe)"
    by auto
  ultimately show ?thesis using pe(1) by blast
qed

lemma save_estimates_True_iff:
  "fst (save_estimates env k db sid b) \<longleftrightarrow>
     \<not> faults env k \<and> \<not> faults env (k + 1)
     \<and> (\<exists>pe\<in>set b. \<exists>p\<in>set (participants db).
           p_session_id p = current_session_id env \<and> p_name p = fst pe)"
proof (cases "get_participants_df env k db (current_session_id env)")
  case No_columns
  then have none: "faults env k
      \<or> filter (\<lambda>p. p_session_id p = current_session_id env) (participants db) = []"
    by (auto simp: get_participants_df_def select_participants_def frame_of_data_def
          split: if_splits)
  have "\<not> fst (save_estimates env k db sid b)"
    using No_columns by (cases b) (simp_all add: save_estimates_def estimates_data_No_columns)
  moreover from none have "faults env k \<or> \<not> (\<exists>pe\<in>set b. \<exists>p\<in>set (participants db).
           p_session_id p = current_session_id env \<and> p_name p = fst pe)"
    by (auto simp: filter_empty_conv)
  ultimately show ?thesis by blast
next
  case (DataFrame ps)
  then have ok: "\<not> faults env k"
    and ps: "ps = filter (\<lambda>p. p_session_id p = current_session_id env) (participants db)"
    by (auto simp: get_participants_df_def select_participants_def frame_of_data_def
          empty_frame_def split: if_splits)
  let ?f = "\<lambda>pe. case filter (\<lambda>p. p_name p = fst pe) ps of
                     [] \<Rightarrow> None
                   | p # _ \<Rightarrow> Some \<lparr>e_session_id = current_session_id env, e_story_id = sid,
                                     e_participant_id = p_id p, e_estimate = py_str env (snd pe),
                                     e_estimated_at = now env\<rparr>"
  have "List.map_filter ?f b \<noteq> [] \<longleftrightarrow>
          (\<exists>pe\<in>set b. filter (\<lambda>p. p_name p = fst pe) ps \<noteq> [])"
    by (auto simp: map_filter_Nil_conv split: list.splits)
  also have "\<dots> \<longleftrightarrow> (\<exists>pe\<in>set b. \<exists>p\<in>set (participants db).
           p_session_id p = current_session_id env \<and> p_name p = fst pe)"
    by (auto simp: ps filter_empty_conv)
  finally have rows_iff: "List.map_filter ?f b \<noteq> [] \<longleftrightarrow> (\<exists>pe\<in>set b. \<exists>p\<in>set (participants db).
           p_session_id p = current_session_id env \<and> p_name p = fst pe)" .
  have "fst (save_estimates env k db sid b) \<longleftrightarrow>
          List.map_filter ?f b \<noteq> [] \<and> \<not> faults env (k + 1)"
    using DataFrame
    by (auto simp: save_estimates_def estimates_data_DataFrame insert_estimates_def)
  with ok rows_iff show ?thesis by blast
qed

text \<open>
  C10 says that an entry whose name matches no participant is skipped silently, that only
  matching entries are inserted, and that without any match nothing is inserted and the result
  is false. The lemmas above give the last two parts. The first one fails when the participants
  frame has no column (the session has no participant, or the query failed): the first pass of
  the loop raises \<^verbatim>\<open>KeyError\<close>, which the handler displays. With participants in
  the frame, an unmatched name is skipped without a word.
\<close>

theorem save_estimates_empty_frame_error:
  "save_estimates plain_env 0 \<lparr>participants = [], user_stories = [us_001], estimates = []\<rparr> 7
     [(''Ana'', PyInt 5)]
     = (False, [Error_guardando (KeyError ''name'')],
        \<lparr>participants = [], user_stories = [us_001], estimates = []\<rparr>)
   \<and> save_estimates offline_env 0 session_store 7 [(''Ana'', PyInt 5)]
     = (False, [Error_guardando (KeyError ''name'')], session_store)
   \<and> save_estimates plain_env 0 session_store 7 [(''Zoe'', PyInt 5)] = (False, [], session_store)"
  by code_simp

subsection \<open>The story after a consensus\<close>

text \<open>
  C6 (as amended). When a round reaches consensus on \<open>v\<close>, every numeric entry is \<open>v\<close>,
  and the story is set to \<^verbatim>\<open>estimated\<close> with final estimate \<open>v\<close> and the current time
  exactly when \<^verbatim>\<open>save_estimates\<close> returned true, that is when some name of the batch is
  a participant of the session and neither the query nor the insert failed, and the update call
  did not fail either; otherwise the stories are left as they were.
\<close>

theorem consensus_updates_story_when_saved:
  assumes "evaluate env db sid b = Consensus v"
  shows "(\<forall>x\<in>set (map snd (numeric_estimates env b)). x = v)
         \<and> user_stories (snd (analyze_estimates env db sid b)) =
             (if (\<exists>pe\<in>set b. \<exists>p\<in>set (participants db).
                    p_session_id p = current_session_id env \<and> p_name p = fst pe)
                 \<and> \<not> faults env 0 \<and> \<not> faults env 1 \<and> \<not> faults env 2
              then map (\<lambda>s. if s_id s = sid
                             then s\<lparr>s_status := ''estimated'', s_final_estimate := Some v,
                                    s_last_estimated_at := Some (now env)\<rparr>
                             else s) (user_stories db)
              else user_stories db)"
proof -
  let ?vs = "map snd (numeric_estimates env b)"
  let ?updated = "map (\<lambda>s. if s_id s = sid
                          then s\<lparr>s_status := ''estimated'', s_final_estimate := Some v,
                                 s_last_estimated_at := Some (now env)\<rparr>
                          else s) (user_stories db)"
  from assms have c: "1 < length (numeric_estimates env b)" "length (remdups ?vs) = 1" "hd ?vs = v"
    by (simp_all add: evaluate_Consensus_iff)
  from c(2) have "\<forall>x\<in>set ?vs. x = hd ?vs"
    using one_distinct_value [of ?vs] by blast
  with c(3) have unanimous: "\<forall>x\<in>set ?vs. x = v" by simp
  obtain saved errors db' where s: "save_estimates env 0 db sid b = (saved, errors, db')"
    by (cases "save_estimates env 0 db sid b") auto
  have keep: "user_stories db' = user_stories db"
    using save_estimates_keeps(2) [of env 0 db sid b] by (simp add: s)
  have saved: "saved \<longleftrightarrow> \<not> faults env 0 \<and> \<not> faults env 1
     \<and> (\<exists>pe\<in>set b. \<exists>p\<in>set (participants db).
           p_session_id p = current_session_id env \<and> p_name p = fst pe)"
    using save_estimates_True_iff [of env 0 db sid b] by (simp add: s)
  have "user_stories (snd (analyze_estimates env db sid b)) =
          (if saved \<and> \<not> faults env 2 then ?updated else user_stories db)"
    using c keep by (simp add: analyze_estimates_store Let_def s update_story_def)
  also have "\<dots> = (if (\<exists>pe\<in>set b. \<exists>p\<in>set (participants db).
                    p_session_id p = current_session_id env \<and> p_name p = fst pe)
                 \<and> \<not> faults env 0 \<and> \<not> faults env 1 \<and> \<not> faults env 2
              then ?updated else user_stories db)"
    using saved by (cases saved) auto
  finally show ?thesis using unanimous by blast
qed

text \<open>
  C6, as stated, fails. Two entries whose names are not participants of the session agree on
  5: the consensus is displayed, \<^verbatim>\<open>save_estimates\<close> returns false and the story stays
  pending. And when the update call fails after the rows were saved, the story stays pending too.
\<close>

theorem consensus_always_updates_refuted:
  "s_status us_001 = ''pending''
   \<and> evaluate plain_env session_store 7 [(''Xena'', PyInt 5), (''Yago'', PyInt 5)] = Consensus 5
   \<and> user_stories (snd (analyze_estimates plain_env session_store 7
        [(''Xena'', PyInt 5), (''Yago'', PyInt 5)])) = [us_001]
   \<and> evaluate (plain_env\<lparr>faults := (\<lambda>k. k = 2)\<rparr>) session_store 7
        [(''Ana'', PyInt 5), (''Luis'', PyInt 5)] = Consensus 5
   \<and> user_stories (snd (analyze_estimates (plain_env\<lparr>faults := (\<lambda>k. k = 2)\<rparr>) session_store 7
        [(''Ana'', PyInt 5), (''Luis'', PyInt 5)])) = [us_001]"
  by code_simp

theorem consensus_updates_story_when_saved_witness:
  "evaluate plain_env session_store 7 [(''Ana'', PyInt 5), (''Luis'', PyInt 5)] = Consensus 5
   \<and> ana \<in> set (participants session_store)
   \<and> p_session_id ana = current_session_id plain_env \<and> p_name ana = ''Ana''
   \<and> user_stories (snd (analyze_estimates plain_env session_store 7
        [(''Ana'', PyInt 5), (''Luis'', PyInt 5)]))
       = [us_001\<lparr>s_status := ''estimated'', s_final_estimate := Some 5,
                 s_last_estimated_at := Some ''2024-05-01T10:00:00''\<rparr>]"
proof -
  let ?b = "[(''Ana'', PyInt 5), (''Luis'', PyInt 5)]"
  have e: "evaluate plain_env session_store 7 ?b = Consensus 5"
    by code_simp
  have p: "ana \<in> set (participants session_store)"
          "p_session_id ana = current_session_id plain_env" "p_name ana = ''Ana''"
    by (simp_all add: session_store_def ana_def plain_env_def)
  then have m: "\<exists>pe\<in>set ?b. \<exists>p\<in>set (participants session_store).
                  p_session_id p = current_session_id plain_env \<and> p_name p = fst pe"
    by (intro bexI [of _ "(''Ana'', PyInt 5)"] bexI [of _ ana]) simp_all
  have f: "\<not> faults plain_env 0" "\<not> faults plain_env 1" "\<not> faults plain_env 2"
    by (simp_all add: plain_env_def)
  have u: "user_stories session_store = [us_001]" "s_id us_001 = 7"
          "now plain_env = ''2024-05-01T10:00:00''"
    by (simp_all add: session_store_def us_001_def plain_env_def)
  have "user_stories (snd (analyze_estimates plain_env session_store 7 ?b))
        = [us_001\<lparr>s_status := ''estimated'', s_final_estimate := Some 5,
                  s_last_estimated_at := Some ''2024-05-01T10:00:00''\<rparr>]"
    using consensus_updates_story_when_saved [OF e] m f
    by (simp only: u if_True simp_thms list.map refl)
  with e p show ?thesis by blast
qed

subsection \<open>The statistics of a round without consensus\<close>

lemma round_half_even_near: "\<bar>of_int (round_half_even x) - x\<bar> \<le> 1 / 2"
proof -
  define d where "d = x - of_int \<lfloor>x\<rfloor>"
  have d0: "0 \<le> d" and d1: "d < 1"
    unfolding d_def by linarith+
  have x: "x = of_int \<lfloor>x\<rfloor> + d"
    by (simp add: d_def)
  have r: "round_half_even x =
             (if d < 1 / 2 then \<lfloor>x\<rfloor> else if 1 / 2 < d then \<lfloor>x\<rfloor> + 1
              else if even \<lfloor>x\<rfloor> then \<lfloor>x\<rfloor> else \<lfloor>x\<rfloor> + 1)"
    by (simp only: round_half_even_def Let_def d_def)
  consider "d < 1 / 2" | "1 / 2 < d" | "d = 1 / 2"
    by linarith
  then show ?thesis
  proof cases
    case 1
    then have "of_int (round_half_even x) - x = - d"
      using x by (simp add: r)
    with 1 d0 show ?thesis by simp
  next
    case 2
    then have "of_int (round_half_even x) - x = 1 - d"
      using x by (simp add: r)
    with 2 d1 show ?thesis by simp
  next
    case 3
    then have "of_int (round_half_even x) - x = - d \<or> of_int (round_half_even x) - x = 1 - d"
      using x by (simp add: r)
    with 3 show ?thesis by auto
  qed
qed

lemma round_half_even_tie:
  assumes "\<bar>of_int (round_half_even x) - x\<bar> = 1 / 2"
  shows "even (round_half_even x)"
proof -
  define d where "d = x - of_int \<lfloor>x\<rfloor>"
  have d0: "0 \<le> d" and d1: "d < 1"
    unfolding d_def by linarith+
  have x: "x = of_int \<lfloor>x\<rfloor> + d"
    by (simp add: d_def)
  have r: "round_half_even x =
             (if d < 1 / 2 then \<lfloor>x\<rfloor> else if 1 / 2 < d then \<lfloor>x\<rfloor> + 1
              else if even \<lfloor>x\<rfloor> then \<lfloor>x\<rfloor> else \<lfloor>x\<rfloor> + 1)"
    by (simp only: round_half_even_def Let_def d_def)
  consider "d < 1 / 2" | "1 / 2 < d" | "d = 1 / 2"
    by linarith
  then show ?thesis
  proof cases
    case 1
    then have "of_int (round_half_even x) - x = - d"
      using x by (simp add: r)
    with 1 d0 assms show ?thesis by simp
  next
    case 2
    then have "of_int (round_half_even x) - x = 1 - d"
      using x by (simp add: r)
    with 2 d1 assms show ?thesis by simp
  next
    case 3
    then show ?thesis by (simp add: r)
  qed
qed

lemma fmt_1f_difference:
  "fmt_1f x - x = (of_int (round_half_even (10 * x)) - 10 * x) / 10"
  by (simp add: fmt_1f_def diff_divide_distrib)

lemma fmt_1f_near: "\<bar>fmt_1f x - x\<bar> \<le> 1 / 20"
proof -
  have "\<bar>fmt_1f x - x\<bar> = \<bar>(of_int (round_half_even (10 * x)) - 10 * x) / 10\<bar>"
    by (simp only: fmt_1f_difference)
  also have "\<dots> = \<bar>of_int (round_half_even (10 * x)) - 10 * x\<bar> / 10"
    by (simp add: abs_divide)
  also have "\<dots> \<le> (1 / 2) / 10"
    by (rule divide_right_mono [OF round_half_even_near]) simp
  finally show ?thesis by simp
qed

lemma fmt_1f_tie:
  assumes "\<bar>fmt_1f x - x\<bar> = 1 / 20"
  shows "even (round_half_even (10 * x))"
proof -
  have "\<bar>fmt_1f x - x\<bar> = \<bar>(of_int (round_half_even (10 * x)) - 10 * x) / 10\<bar>"
    by (simp only: fmt_1f_difference)
  also have "\<dots> = \<bar>of_int (round_half_even (10 * x)) - 10 * x\<bar> / 10"
    by (simp add: abs_divide)
  finally have "\<bar>of_int (round_half_even (10 * x)) - 10 * x\<bar> / 10 = 1 / 20"
    using assms by simp
  then have "\<bar>of_int (round_half_even (10 * x)) - 10 * x\<bar> = 1 / 2"
    by simp
  then show ?thesis by (rule round_half_even_tie)
qed

lemma fmt_1f_one_decimal:
  "\<exists>k::int. fmt_1f x = of_int k / 10 \<and> \<bar>fmt_1f x - x\<bar> \<le> 1 / 20
            \<and> (\<bar>fmt_1f x - x\<bar> = 1 / 20 \<longrightarrow> even k)"
proof (intro exI conjI impI)
  show "fmt_1f x = of_int (round_half_even (10 * x)) / 10"
    by (simp add: fmt_1f_def)
  show "\<bar>fmt_1f x - x\<bar> \<le> 1 / 20"
    by (rule fmt_1f_near)
  show "even (round_half_even (10 * x))" if "\<bar>fmt_1f x - x\<bar> = 1 / 20"
    using that by (rule fmt_1f_tie)
qed

lemma numeric_estimates_without_special:
  "numeric_estimates env (filter (\<lambda>pe. \<not> is_special (snd pe)) b) = numeric_estimates env b"
  by (induction b rule: numeric_estimates.induct) (simp_all split: sum.splits)

lemma analyze_estimates_no_consensus:
  assumes "1 < length (numeric_estimates env b)"
    and "length (remdups (map snd (numeric_estimates env b))) \<noteq> 1"
  shows "analyze_estimates env db sid b =
           (show_estimates b (special_estimates b) @ show_statistics env (numeric_estimates env b)
            @ [Warning_sin_consenso (py_min (map snd (numeric_estimates env b)))
                 (py_max (map snd (numeric_estimates env b))), Info_discutan], db)"
  using assms by (simp add: analyze_estimates_def Let_def)

lemma two_distinct_values:
  assumes "x \<in> set xs" "y \<in> set xs" "x \<noteq> y"
  shows "length (remdups xs) \<noteq> 1"
proof
  assume "length (remdups xs) = 1"
  then have "\<forall>z\<in>set xs. z = hd xs" using one_distinct_value [of xs] by blast
  with assms(1,2) have "x = hd xs" and "y = hd xs" by blast+
  with assms(3) show False by simp
qed

text \<open>
  C7 (as amended). With two or more numeric entries that do not all agree, the verdict is no
  consensus with the least and the greatest numeric value, both exact; it carries no mean. The
  mean is the double that \<^verbatim>\<open>numpy.mean\<close> returns on the numeric values, and it is
  only displayed, in the format \<^verbatim>\<open>:.1f\<close>: the multiple of one tenth nearest to that
  double, a tie going to the even digit. The numeric values are those of the batch without its
  special cards. Ana playing 3 and Luis playing 8 give 3, 8 and the mean 5.5.
\<close>

theorem no_consensus_statistics:
  assumes "1 < length (numeric_estimates env b)"
    and "\<exists>p\<in>set (numeric_estimates env b). \<exists>q\<in>set (numeric_estimates env b). snd p \<noteq> snd q"
  shows "let values = map snd (numeric_estimates env b);
             shown = fmt_1f (np_mean env values)
         in evaluate env db sid b = NoConsensus (Min (set values)) (Max (set values))
            \<and> fst (analyze_estimates env db sid b) =
                show_estimates b (special_estimates b)
                @ [Metric_minimo (Min (set values)), Metric_maximo (Max (set values)),
                   Metric_promedio shown, Bar_estimaciones (numeric_estimates env b),
                   Warning_sin_consenso (Min (set values)) (Max (set values)), Info_discutan]
            \<and> (\<exists>k::int. shown = of_int k / 10
                   \<and> \<bar>shown - np_mean env values\<bar> \<le> 1 / 20
                   \<and> (\<bar>shown - np_mean env values\<bar> = 1 / 20 \<longrightarrow> even k))
            \<and> values = map snd (numeric_estimates env (filter (\<lambda>pe. \<not> is_special (snd pe)) b))"
proof -
  define vs where "vs = map snd (numeric_estimates env b)"
  from assms(1) have len: "1 < length vs" and ne: "vs \<noteq> []"
    by (auto simp: vs_def)
  from assms(2) obtain x y where "x \<in> set vs" "y \<in> set vs" "x \<noteq> y"
    by (auto simp: vs_def)
  then have d: "length (remdups vs) \<noteq> 1"
    by (rule two_distinct_values)
  have mn: "py_min vs = Min (set vs)" and mx: "py_max vs = Max (set vs)"
    using ne by (rule py_min_eq_Min, rule py_max_eq_Max)
  have "evaluate env db sid b = NoConsensus (py_min vs) (py_max vs)"
    using len d unfolding vs_def by (simp add: evaluate_cases Let_def)
  then have 1: "evaluate env db sid b = NoConsensus (Min (set vs)) (Max (set vs))"
    by (simp only: mn mx)
  have "fst (analyze_estimates env db sid b) =
          show_estimates b (special_estimates b) @ show_statistics env (numeric_estimates env b)
          @ [Warning_sin_consenso (py_min vs) (py_max vs), Info_discutan]"
    using analyze_estimates_no_consensus [of env b db sid] len d unfolding vs_def by simp
  moreover have "show_statistics env (numeric_estimates env b) =
          [Metric_minimo (py_min vs), Metric_maximo (py_max vs),
           Metric_promedio (fmt_1f (np_mean env vs)),
           Bar_estimaciones (numeric_estimates env b)]"
    by (simp add: show_statistics_def Let_def vs_def)
  ultimately have 2: "fst (analyze_estimates env db sid b) =
          show_estimates b (special_estimates b) @
          [Metric_minimo (Min (set vs)), Metric_maximo (Max (set vs)),
           Metric_promedio (fmt_1f (np_mean env vs)),
           Bar_estimaciones (numeric_estimates env b),
           Warning_sin_consenso (Min (set vs)) (Max (set vs)), Info_discutan]"
    by (simp only: mn mx append_Cons append_Nil)
  have 3: "vs = map snd (numeric_estimates env (filter (\<lambda>pe. \<not> is_special (snd pe)) b))"
    by (simp only: vs_def numeric_estimates_without_special)
  have 4: "\<exists>k::int. fmt_1f (np_mean env vs) = of_int k / 10
             \<and> \<bar>fmt_1f (np_mean env vs) - np_mean env vs\<bar> \<le> 1 / 20
             \<and> (\<bar>fmt_1f (np_mean env vs) - np_mean env vs\<bar> = 1 / 20 \<longrightarrow> even k)"
    by (rule fmt_1f_one_decimal)
  have "evaluate env db sid b = NoConsensus (Min (set vs)) (Max (set vs))
        \<and> fst (analyze_estimates env db sid b) =
            show_estimates b (special_estimates b) @
            [Metric_minimo (Min (set vs)), Metric_maximo (Max (set vs)),
             Metric_promedio (fmt_1f (np_mean env vs)),
             Bar_estimaciones (numeric_estimates env b),
             Warning_sin_consenso (Min (set vs)) (Max (set vs)), Info_discutan]
        \<and> (\<exists>k::int. fmt_1f (np_mean env vs) = of_int k / 10
             \<and> \<bar>fmt_1f (np_mean env vs) - np_mean env vs\<bar> \<le> 1 / 20
             \<and> (\<bar>fmt_1f (np_mean env vs) - np_mean env vs\<bar> = 1 / 20 \<longrightarrow> even k))
        \<and> vs = map snd (numeric_estimates env (filter (\<lambda>pe. \<not> is_special (snd pe)) b))"
    by (intro conjI) (fact 1, fact 2, fact 4, fact 3)
  then show ?thesis
    unfolding Let_def vs_def .
qed

text \<open>
  C7, as stated, fails: no exact mean is kept. One participant plays 0.5 and nine play 5; the
  exact mean is 4.55, which is not a double; \<^verbatim>\<open>numpy.mean\<close> returns the double next
  below it, and the metric shows 4.5, where the exact mean in the same format is 4.6.
\<close>

theorem exact_mean_carried_refuted:
  "map snd (numeric_estimates plain_env ten_cards) = [1 / 2, 5, 5, 5, 5, 5, 5, 5, 5, 5]
   \<and> sum_list [1 / 2, 5, 5, 5, 5, 5, 5, 5, 5, 5 :: rat] / 10 = 91 / 20
   \<and> np_mean plain_env [1 / 2, 5, 5, 5, 5, 5, 5, 5, 5, 5]
       = 5122844576133939 / 1125899906842624
   \<and> evaluate plain_env session_store 7 ten_cards = NoConsensus (1 / 2) 5
   \<and> fst (analyze_estimates plain_env session_store 7 ten_cards)
       = [Markdown_resultados, Dataframe_resultados ten_cards,
          Metric_minimo (1 / 2), Metric_maximo 5, Metric_promedio (9 / 2),
          Bar_estimaciones (numeric_estimates plain_env ten_cards),
          Warning_sin_consenso (1 / 2) 5, Info_discutan]
   \<and> fmt_1f (91 / 20) = 23 / 5"
  by code_simp

theorem no_consensus_statistics_witness:
  "1 < length (numeric_estimates plain_env [(''Ana'', PyInt 3), (''Luis'', PyInt 8)])
   \<and> map snd (numeric_estimates plain_env [(''Ana'', PyInt 3), (''Luis'', PyInt 8)]) = [3, 8]
   \<and> evaluate plain_env session_store 7 [(''Ana'', PyInt 3), (''Luis'', PyInt 8)] = NoConsensus 3 8
   \<and> fst (analyze_estimates plain_env session_store 7 [(''Ana'', PyInt 3), (''Luis'', PyInt 8)])
       = [Markdown_resultados, Dataframe_resultados [(''Ana'', PyInt 3), (''Luis'', PyInt 8)],
          Metric_minimo 3, Metric_maximo 8, Metric_promedio (11 / 2),
          Bar_estimaciones [(''Ana'', 3), (''Luis'', 8)],
          Warning_sin_consenso 3 8, Info_discutan]
   \<and> np_mean plain_env [0, 1 / 2] = 1 / 4
   \<and> fst (analyze_estimates plain_env session_store 7
            [(''Ana'', PyInt 0), (''Luis'', PyFloat (1 / 2))])
       = [Markdown_resultados,
          Dataframe_resultados [(''Ana'', PyInt 0), (''Luis'', PyFloat (1 / 2))],
          Metric_minimo 0, Metric_maximo (1 / 2), Metric_promedio (1 / 5),
          Bar_estimaciones [(''Ana'', 0), (''Luis'', 1 / 2)],
          Warning_sin_consenso 0 (1 / 2), Info_discutan]"
proof -
  let ?b = "[(''Ana'', PyInt 3), (''Luis'', PyInt 8)]"
  let ?c = "[(''Ana'', PyInt 0), (''Luis'', PyFloat (1 / 2))]"
  have n: "numeric_estimates plain_env ?b = [(''Ana'', 3), (''Luis'', 8)]"
    by (simp add: is_special_def special_cards_def)
  have l: "1 < length (numeric_estimates plain_env ?b)"
    unfolding n by simp
  have d: "\<exists>p\<in>set (numeric_estimates plain_env ?b). \<exists>q\<in>set (numeric_estimates plain_env ?b).
             snd p \<noteq> snd q"
    unfolding n by (rule bexI [of _ "(''Ana'', 3)"], rule bexI [of _ "(''Luis'', 8)"]) simp_all
  have s: "show_estimates ?b (special_estimates ?b) = [Markdown_resultados, Dataframe_resultados ?b]"
    by (simp add: show_estimates_def is_special_def special_cards_def)
  have f: "fmt_1f (np_mean plain_env [3, 8]) = 11 / 2"
    by code_simp
  have m: "Min (set [3, 8 :: rat]) = 3" "Max (set [3, 8 :: rat]) = 8"
    by simp_all
  have first: "evaluate plain_env session_store 7 ?b = NoConsensus 3 8
        \<and> fst (analyze_estimates plain_env session_store 7 ?b)
            = [Markdown_resultados, Dataframe_resultados ?b,
               Metric_minimo 3, Metric_maximo 8, Metric_promedio (11 / 2),
               Bar_estimaciones [(''Ana'', 3), (''Luis'', 8)],
               Warning_sin_consenso 3 8, Info_discutan]"
    using no_consensus_statistics [OF l d, of session_store 7]
    unfolding Let_def n s by (simp only: list.map snd_conv m f append_Cons append_Nil)
  have n': "numeric_estimates plain_env ?c = [(''Ana'', 0), (''Luis'', 1 / 2)]"
    by (simp add: is_special_def special_cards_def)
  have l': "1 < length (numeric_estimates plain_env ?c)"
    unfolding n' by simp
  have d': "\<exists>p\<in>set (numeric_estimates plain_env ?c). \<exists>q\<in>set (numeric_estimates plain_env ?c).
             snd p \<noteq> snd q"
    unfolding n' by (rule bexI [of _ "(''Ana'', 0)"], rule bexI [of _ "(''Luis'', 1 / 2)"]) simp_all
  have s': "show_estimates ?c (special_estimates ?c) = [Markdown_resultados, Dataframe_resultados ?c]"
    by (simp add: show_estimates_def is_special_def special_cards_def)
  have quarter: "np_mean plain_env [0, 1 / 2] = 1 / 4"
    by code_simp
  have f': "fmt_1f (np_mean plain_env [0, 1 / 2]) = 1 / 5"
    by code_simp
  have m': "Min (set [0, 1 / 2 :: rat]) = 0" "Max (set [0, 1 / 2 :: rat]) = 1 / 2"
    by simp_all
  have second: "fst (analyze_estimates plain_env session_store 7 ?c)
            = [Markdown_resultados, Dataframe_resultados ?c,
               Metric_minimo 0, Metric_maximo (1 / 2), Metric_promedio (1 / 5),
               Bar_estimaciones [(''Ana'', 0), (''Luis'', 1 / 2)],
               Warning_sin_consenso 0 (1 / 2), Info_discutan]"
    using no_consensus_statistics [OF l' d', of session_store 7]
    unfolding Let_def n' s' by (simp only: list.map snd_conv m' f' append_Cons append_Nil)
  have v: "map snd (numeric_estimates plain_env ?b) = [3, 8]"
    unfolding n by simp
  from l v first quarter second show ?thesis
    by (intro conjI) simp_all
qed

section \<open>Properties of the analytics\<close>

lemma frame_not_empty_has_columns: "\<not> df_empty df \<Longrightarrow> has_columns df"
  by (cases df) (simp_all add: df_empty_def)

lemma column_not_empty: "\<not> df_empty df \<Longrightarrow> column df name field = Inr (map field (rows df))"
  by (simp add: column_def frame_not_empty_has_columns)

lemma numeric_series_Nil_iff:
  "numeric_series env series = [] \<longleftrightarrow> (\<forall>e\<in>set series. to_numeric env e = None)"
  by (induction series) (auto simp: numeric_series_def split: option.splits)



lemma estimates_summary_not_empty:
  assumes "\<not> df_empty estimates_df"
  shows "estimates_summary env participants_df estimates_df =
           Inr (Some \<lparr>estimaciones_total = length (rows estimates_df),
                      estimaciones_promedio =
                        fmt_1f_nan (series_mean env (numeric_series env (map r_estimate (rows estimates_df)))),
                      estimaciones_mediana =
                        fmt_1f_nan (series_median env (numeric_series env (map r_estimate (rows estimates_df)))),
                      estimaciones_participantes = nunique (map p_name (rows participants_df))\<rparr>)"
proof (cases "df_empty participants_df")
  case True
  then have "rows participants_df = []" by (simp add: df_empty_def)
  with True assms show ?thesis
    by (simp add: estimates_summary_def and_then_def column_not_empty nunique_def Let_def)
next
  case False
  with assms show ?thesis
    by (simp add: estimates_summary_def and_then_def column_not_empty Let_def)
qed

lemma analytics_of_not_empty:
  assumes "\<not> df_empty estimates_df"
  shows "analytics_of env estimates_df =
           Inr (Analytics
             \<lparr>historias_estimadas = nunique (map r_story_id (rows estimates_df)),
              total_estimaciones = length (rows estimates_df),
              promedio =
                fmt_1f (if numeric_series env (map r_estimate (rows estimates_df)) \<noteq> []
                        then pd_mean env (numeric_series env (map r_estimate (rows estimates_df)))
                        else 0),
              participantes_activos = nunique (map r_participant_name (rows estimates_df)),
              distribucion =
                (if numeric_series env (map r_estimate (rows estimates_df)) \<noteq> []
                 then Some (numeric_series env (map r_estimate (rows estimates_df))) else None),
              promedio_por_participante =
                (if participant_stats env (rows estimates_df) \<noteq> []
                 then Some (participant_stats env (rows estimates_df)) else None),
              detalle = rows estimates_df\<rparr>)"
  using assms by (simp add: analytics_of_def and_then_def column_not_empty Let_def)

lemma fmt_1f_zero: "fmt_1f 0 = 0"
  by (simp add: fmt_1f_def round_half_even_def)

lemma participant_stats_Nil:
  assumes "numeric_series env (map r_estimate found) = []"
  shows "participant_stats env found = []"
proof -
  have "numeric_series env (map r_estimate (filter P found)) = []" for P
    using assms by (auto simp: numeric_series_Nil_iff)
  then show ?thesis
    by (simp add: participant_stats_def series_mean_def map_filter_def)
qed

lemma stories_summary_total: "\<exists>v. stories_summary stories_df = Inr v"
  by (cases "df_empty stories_df")
     (simp_all add: stories_summary_def and_then_def column_not_empty Let_def)

lemma estimates_summary_total: "\<exists>v. estimates_summary env participants_df estimates_df = Inr v"
  by (cases "df_empty estimates_df")
     (simp_all add: estimates_summary_not_empty, simp add: estimates_summary_def)

lemma analytics_of_total: "\<exists>v. analytics_of env estimates_df = Inr v"
  by (cases "df_empty estimates_df")
     (simp_all add: analytics_of_not_empty, simp add: analytics_of_def)

lemma get_estimates_df_fault:
  "faults env k \<Longrightarrow> get_estimates_df env k db sid = (empty_frame, [APIError])"
  by (simp add: get_estimates_df_def select_estimates_def)

lemma df_empty_empty_frame: "df_empty empty_frame"
  by (simp add: df_empty_def empty_frame_def)

lemma participant_stats_member:
  "(name, x) \<in> set (participant_stats env found) \<longleftrightarrow>
     series_mean env (numeric_series env
       (map r_estimate (filter (\<lambda>r. r_participant_name r = name) found))) = Some x"
proof -
  let ?group = "filter (\<lambda>r. r_participant_name r = name) found"
  have "name \<in> r_participant_name ` set found"
    if "series_mean env (numeric_series env (map r_estimate ?group)) = Some x"
  proof -
    from that have "numeric_series env (map r_estimate ?group) \<noteq> []"
      by (auto simp: series_mean_def split: if_splits)
    then have "?group \<noteq> []"
      by (auto simp: numeric_series_def)
    then obtain r where "r \<in> set found" "r_participant_name r = name"
      by (auto simp: filter_empty_conv)
    then show ?thesis by auto
  qed
  then show ?thesis
    by (auto simp: participant_stats_def set_map_filter_conv)
qed



text \<open>
  C9. The analytics never raise. Both tabs return a view for every store, every parser and
  every pattern of failing queries; a failing query gives the empty frame, shown as ``no
  estimates'' or as an absent summary; with rows but nothing numeric the average is 0 in the
  analytics tab and NaN, like the median, in the report; and a participant with nothing numeric
  is left out of the averages by participant.
\<close>

theorem analytics_never_raise:
  "(\<exists>view errors. render_analytics_tab env db = Inr (view, errors))
   \<and> (\<exists>historias estimaciones errors.
         render_reports_tab env db = Inr (historias, estimaciones, errors))
   \<and> (faults env 0 \<longrightarrow> render_analytics_tab env db = Inr (No_hay_estimaciones, [APIError]))
   \<and> (faults env 0 \<and> faults env 1 \<and> faults env 2 \<longrightarrow>
         render_reports_tab env db = Inr (None, None, [APIError]))
   \<and> (\<exists>v. stories_summary stories_df = Inr v)
   \<and> (\<exists>v. estimates_summary env participants_df estimates_df = Inr v)
   \<and> (\<exists>v. analytics_of env estimates_df = Inr v)
   \<and> (df_empty stories_df \<longrightarrow> stories_summary stories_df = Inr None)
   \<and> (df_empty estimates_df \<longrightarrow>
         analytics_of env estimates_df = Inr No_hay_estimaciones
         \<and> estimates_summary env participants_df estimates_df = Inr None)
   \<and> (\<not> df_empty estimates_df
        \<and> numeric_series env (map r_estimate (rows estimates_df)) = [] \<longrightarrow>
         (\<exists>a. analytics_of env estimates_df = Inr (Analytics a)
               \<and> promedio a = 0 \<and> distribucion a = None \<and> promedio_por_participante a = None)
         \<and> (\<exists>s. estimates_summary env participants_df estimates_df = Inr (Some s)
               \<and> estimaciones_promedio s = None \<and> estimaciones_mediana s = None))
   \<and> (numeric_series env
         (map r_estimate (filter (\<lambda>r. r_participant_name r = name) found)) = [] \<longrightarrow>
         name \<notin> fst ` set (participant_stats env found))"
proof -
  have 1: "\<exists>view errors. render_analytics_tab env db = Inr (view, errors)"
    using analytics_of_total [of env "fst (get_estimates_df env 0 db (current_session_id env))"]
    by (auto simp: render_analytics_tab_def and_then_def split: prod.splits)
  have 2: "\<exists>historias estimaciones errors.
             render_reports_tab env db = Inr (historias, estimaciones, errors)"
    using stories_summary_total [of "get_stories_df env 0 db (current_session_id env)"]
          estimates_summary_total [of env "get_participants_df env 1 db (current_session_id env)"
            "fst (get_estimates_df env 2 db (current_session_id env))"]
    by (auto simp: render_reports_tab_def and_then_def Let_def split: prod.splits)
  have empty_a: "analytics_of env empty_frame = Inr No_hay_estimaciones"
    by (simp add: analytics_of_def df_empty_empty_frame)
  have empty_e: "estimates_summary env pdf empty_frame = Inr None" for pdf
    by (simp add: estimates_summary_def df_empty_empty_frame)
  have empty_s: "stories_summary empty_frame = Inr None"
    by (simp add: stories_summary_def df_empty_empty_frame)
  have 3: "render_analytics_tab env db = Inr (No_hay_estimaciones, [APIError])" if "faults env 0"
    using that by (simp add: render_analytics_tab_def get_estimates_df_fault empty_a and_then_def)
  have 4: "render_reports_tab env db = Inr (None, None, [APIError])"
    if "faults env 0 \<and> faults env 1 \<and> faults env 2"
    using that
    by (simp add: render_reports_tab_def get_estimates_df_fault get_stories_df_def
          select_stories_def get_participants_df_def select_participants_def
          empty_e empty_s and_then_def)
  have 5: "stories_summary stories_df = Inr None" if "df_empty stories_df"
    using that by (simp add: stories_summary_def)
  have 6: "analytics_of env estimates_df = Inr No_hay_estimaciones
           \<and> estimates_summary env participants_df estimates_df = Inr None"
    if "df_empty estimates_df"
    using that by (simp add: analytics_of_def estimates_summary_def)
  have 7: "(\<exists>a. analytics_of env estimates_df = Inr (Analytics a)
               \<and> promedio a = 0 \<and> distribucion a = None \<and> promedio_por_participante a = None)
         \<and> (\<exists>s. estimates_summary env participants_df estimates_df = Inr (Some s)
               \<and> estimaciones_promedio s = None \<and> estimaciones_mediana s = None)"
    if "\<not> df_empty estimates_df \<and> numeric_series env (map r_estimate (rows estimates_df)) = []"
    using that
    by (simp add: analytics_of_not_empty estimates_summary_not_empty participant_stats_Nil
          fmt_1f_zero fmt_1f_nan_def series_mean_def series_median_def)
  have 8: "name \<notin> fst ` set (participant_stats env found)"
    if "numeric_series env
          (map r_estimate (filter (\<lambda>r. r_participant_name r = name) found)) = []"
    using that by (auto simp: participant_stats_member series_mean_def)
  from 1 2 3 4 5 6 7 8 stories_summary_total estimates_summary_total analytics_of_total
  show ?thesis by blast
qed

theorem analytics_never_raise_witness:
  "faults offline_env 0 \<and> faults offline_env 1 \<and> faults offline_env 2
   \<and> render_analytics_tab offline_env tokens_store = Inr (No_hay_estimaciones, [APIError])
   \<and> render_reports_tab offline_env tokens_store = Inr (None, None, [APIError])
   \<and> \<not> df_empty (fst (get_estimates_df plain_env 0 tokens_store 1))
   \<and> numeric_series plain_env
         (map r_estimate (rows (fst (get_estimates_df plain_env 0 tokens_store 1)))) = []
   \<and> (\<exists>a. analytics_of plain_env (fst (get_estimates_df plain_env 0 tokens_store 1))
               = Inr (Analytics a)
          \<and> promedio a = 0 \<and> distribucion a = None \<and> promedio_por_participante a = None)
   \<and> (\<exists>s. estimates_summary plain_env (get_participants_df plain_env 1 tokens_store 1)
               (fst (get_estimates_df plain_env 0 tokens_store 1)) = Inr (Some s)
          \<and> estimaciones_promedio s = None \<and> estimaciones_mediana s = None)
   \<and> df_empty (empty_frame :: story frame)
   \<and> stories_summary empty_frame = Inr None
   \<and> ''Ana'' \<notin> fst ` set (participant_stats plain_env
                              (rows (fst (get_estimates_df plain_env 0 tokens_store 1))))"
proof -
  let ?df = "fst (get_estimates_df plain_env 0 tokens_store 1)"
  let ?pdf = "get_participants_df plain_env 1 tokens_store 1"
  have down: "faults offline_env 0 \<and> faults offline_env 1 \<and> faults offline_env 2"
    by (simp add: offline_env_def)
  have full: "\<not> df_empty ?df"
    by code_simp
  have none: "numeric_series plain_env (map r_estimate (rows ?df)) = []"
    by code_simp
  have ana: "numeric_series plain_env
               (map r_estimate (filter (\<lambda>r. r_participant_name r = ''Ana'') (rows ?df))) = []"
    by code_simp
  have no_story: "df_empty (empty_frame :: story frame)"
    by (simp add: df_empty_def empty_frame_def)
  note offline = analytics_never_raise [of offline_env tokens_store empty_frame "?pdf" "?df" "''Ana''" "rows ?df"]
  note online = analytics_never_raise [of plain_env tokens_store empty_frame "?pdf" "?df" "''Ana''" "rows ?df"]
  have a: "render_analytics_tab offline_env tokens_store = Inr (No_hay_estimaciones, [APIError])"
    using offline down by blast
  have r: "render_reports_tab offline_env tokens_store = Inr (None, None, [APIError])"
    using offline down by blast
  have s: "stories_summary (empty_frame :: story frame) = Inr None"
    using online no_story by blast
  have n: "(\<exists>a. analytics_of plain_env ?df = Inr (Analytics a)
               \<and> promedio a = 0 \<and> distribucion a = None \<and> promedio_por_participante a = None)
         \<and> (\<exists>s. estimates_summary plain_env ?pdf ?df = Inr (Some s)
               \<and> estimaciones_promedio s = None \<and> estimaciones_mediana s = None)"
    using online full none by blast
  have p: "''Ana'' \<notin> fst ` set (participant_stats plain_env (rows ?df))"
    using online ana by blast
  from down a r full none n no_story s p show ?thesis
    by (intro conjI) blast+
qed

end
